theory Spec2Isabelle
  imports Main "HOL-Library.Word"
begin

unbundle bit_operations_syntax

section \<open>VC4CL: the mailbox property channel and the baseline event actions\<close>

text \<open>
  A shallow embedding of \<^verbatim>\<open>src/Mailbox.cpp\<close> and of the two baseline
  \<^verbatim>\<open>EventAction\<close> variants of \<^verbatim>\<open>src/Event.h\<close>.

  Every function of \<^verbatim>\<open>Mailbox.cpp\<close> that talks to the kernel becomes a function
  from a world state to a result and a new world state. A C++ exception is the left
  injection of the result; the world records the kernel's own state, the system calls
  issued so far and the \<^verbatim>\<open>DeviceBuffer\<close> objects living on the free store.
\<close>

subsection \<open>Data\<close>

type_synonym u32 = "32 word"

text \<open>\<^verbatim>\<open>cl_int\<close> is a signed 32-bit integer; \<^term>\<open>sint\<close> reads it.\<close>

type_synonym cl_int = "32 word"

text \<open>
  \<^verbatim>\<open>std::chrono::milliseconds::rep\<close> is a signed 64-bit integer; \<^term>\<open>sint\<close>
  reads it.
\<close>

type_synonym milliseconds = "64 word"

text \<open>A host address (\<^verbatim>\<open>void*\<close>); \<open>0\<close> is \<^verbatim>\<open>nullptr\<close>.\<close>

type_synonym host_ptr = nat

text \<open>
  The exceptions and aborts of the sources: \<^verbatim>\<open>std::system_error\<close> carrying
  \<^verbatim>\<open>errno\<close>, \<^verbatim>\<open>std::bad_function_call\<close> of an empty
  \<^verbatim>\<open>std::function\<close>, \<^verbatim>\<open>std::terminate\<close> for an exception leaving a
  destructor, and the dereference of a pointer to no live object.
\<close>

datatype error =
    system_error int
  | bad_function_call
  | terminate
  | invalid_pointer

text \<open>The tags that \<^verbatim>\<open>Mailbox.cpp\<close> uses.\<close>

datatype MailboxTag =
    ALLOCATE_MEMORY
  | LOCK_MEMORY
  | UNLOCK_MEMORY
  | RELEASE_MEMORY
  | EXECUTE_CODE
  | EXECUTE_QPU
  | ENABLE_QPU
  | VC_MEMORY

text \<open>
  Modelled from the spec: the class template \<^verbatim>\<open>MailboxMessage<Tag, N, M>\<close> is
  declared in \<^verbatim>\<open>Mailbox.h\<close>, which is not among the sources. The spec gives the
  buffer as header words (sizes, request code, tag code), the request words, and an end
  marker; the firmware overwrites the request words with the response words in the same
  slots. The header and end marker are fixed by the tag and the two sizes and nothing in
  \<^verbatim>\<open>Mailbox.cpp\<close> reads them, so a message is kept as its tag and its content
  slots.
\<close>

record MailboxMessage =
  tag :: MailboxTag
  content :: "u32 list"

text \<open>
  Modelled from the spec: the constructor of \<^verbatim>\<open>MailboxMessage<Tag, N, M>\<close>
  (\<^verbatim>\<open>Mailbox.h\<close>, not among the sources). The content has \<open>max N M\<close> slots, the
  request words first; unused response slots start as zero.
\<close>

definition MailboxMessage_init :: "MailboxTag \<Rightarrow> nat \<Rightarrow> nat \<Rightarrow> u32 list \<Rightarrow> MailboxMessage" where
  "MailboxMessage_init t n m request =
     \<lparr>tag = t, content = take (max n m) (request @ replicate (max n m) 0)\<rparr>"

text \<open>
  Modelled from the spec: the alias \<^verbatim>\<open>QueryMessage<Tag>\<close> (\<^verbatim>\<open>Mailbox.h\<close>, not
  among the sources). \<^verbatim>\<open>Mailbox.cpp\<close> builds it from one request word and reads it
  back at slot 0; one slot is the least that this use needs.
\<close>

definition QueryMessage :: "MailboxTag \<Rightarrow> u32 \<Rightarrow> MailboxMessage" where
  "QueryMessage t x = MailboxMessage_init t 1 1 [x]"

text \<open>
  Modelled from the spec: the alias \<^verbatim>\<open>SimpleQueryMessage<Tag>\<close> (\<^verbatim>\<open>Mailbox.h\<close>,
  not among the sources), the read-only query with zero-filled placeholders.
  \<^verbatim>\<open>Mailbox.cpp\<close> builds it from no request word and reads it back at slot 1; two
  slots are the least that this use needs.
\<close>

definition SimpleQueryMessage :: "MailboxTag \<Rightarrow> MailboxMessage" where
  "SimpleQueryMessage t = MailboxMessage_init t 0 2 []"

text \<open>
  Modelled from the spec: the accessor \<^verbatim>\<open>getContent\<close> (\<^verbatim>\<open>Mailbox.h\<close>, not among
  the sources) reads the content slot of the given index, where the response word stands
  after the call.
\<close>

definition getContent :: "MailboxMessage \<Rightarrow> nat \<Rightarrow> u32" where
  "getContent msg index = content msg ! index"

text \<open>
  What one \<^verbatim>\<open>ioctl(fd, IOCTL_MBOX_PROPERTY, buffer)\<close> gives back: its return value,
  the \<^verbatim>\<open>errno\<close> it leaves, and the words the kernel wrote into the content slots.
\<close>

record ioctl_result =
  ret_val :: int
  errno :: int
  written :: "u32 list"

text \<open>
  Modelled from the spec: the buffer is a fixed array that request and response share. The
  kernel's words replace the slots from the front and never change the number of slots.
\<close>

definition write_back :: "u32 list \<Rightarrow> u32 list \<Rightarrow> u32 list" where
  "write_back slots ws = take (length slots) ws @ drop (length ws) slots"

text \<open>The system calls the channel can issue, as they are recorded in the world.\<close>

datatype syscall =
    Ioctl MailboxMessage
  | Mapmem u32 u32
  | Unmapmem host_ptr u32

record DeviceBuffer =
  memHandle :: u32
  qpuPointer :: u32
  hostPointer :: host_ptr
  size_bytes :: u32

text \<open>
  What \<^verbatim>\<open>Mailbox.cpp\<close> takes from outside itself, as one parameter: the build flag
  \<^verbatim>\<open>DEBUG_MODE\<close>, the constant \<^verbatim>\<open>PAGE_ALIGNMENT\<close>, the kernel behind the
  device file (a transition function on its own state \<open>'k\<close>), the helpers
  \<^verbatim>\<open>mapmem\<close> and \<^verbatim>\<open>unmapmem\<close>, and \<^verbatim>\<open>V3D::busAddressToPhysicalAddress\<close>.
  None of them is defined in the sources. \<^verbatim>\<open>mapmem\<close> yields the host address, or
  \<^verbatim>\<open>nullptr\<close> when the mapping fails.

  \<^verbatim>\<open>errno\<close> is a global that every library call may write. Between a failed
  \<^verbatim>\<open>ioctl\<close> and the \<^verbatim>\<open>throw\<close> that reads \<^verbatim>\<open>errno\<close>,
  \<^verbatim>\<open>mailboxCall\<close> writes to \<^verbatim>\<open>std::cout\<close> and calls \<^verbatim>\<open>perror\<close>;
  \<open>errno_after_output\<close> is what these leave in \<^verbatim>\<open>errno\<close>, given the state of
  the system and the value the \<^verbatim>\<open>ioctl\<close> left there. The standard streams are not
  part of the world.
\<close>

record 'k platform =
  DEBUG_MODE :: bool
  PAGE_ALIGNMENT :: u32
  ioctl :: "'k \<Rightarrow> MailboxMessage \<Rightarrow> ioctl_result \<times> 'k"
  mapmem :: "'k \<Rightarrow> u32 \<Rightarrow> u32 \<Rightarrow> host_ptr \<times> 'k"
  unmapmem :: "'k \<Rightarrow> host_ptr \<Rightarrow> u32 \<Rightarrow> 'k"
  busAddressToPhysicalAddress :: "u32 \<Rightarrow> u32"
  errno_after_output :: "'k \<Rightarrow> int \<Rightarrow> int"

text \<open>
  The world: the kernel's state, the system calls issued so far in order, the
  \<^verbatim>\<open>DeviceBuffer\<close> objects on the free store and the next address \<^verbatim>\<open>new\<close> hands out.
\<close>

record 'k world =
  kernel :: 'k
  trace :: "syscall list"
  heap :: "nat \<rightharpoonup> DeviceBuffer"
  next_ptr :: nat

subsection \<open>The system call wrapper\<close>

text \<open>
  \<^verbatim>\<open>Mailbox::mailboxCall\<close>: one \<^verbatim>\<open>ioctl\<close>; on a negative return the two output
  statements run and then \<^verbatim>\<open>std::system_error(errno, ...)\<close> is thrown, with
  \<^verbatim>\<open>errno\<close> as it stands at that point; any other return is handed back with the
  buffer the kernel answered in.
\<close>

definition mailboxCall ::
  "'k platform \<Rightarrow> MailboxMessage \<Rightarrow> 'k world \<Rightarrow> (error + int \<times> MailboxMessage) \<times> 'k world" where
  "mailboxCall P buffer s =
     (let (r, k') = ioctl P (kernel s) buffer;
          s' = s\<lparr>kernel := k', trace := trace s @ [Ioctl buffer]\<rparr>
      in if ret_val r < 0
         then (Inl (system_error (errno_after_output P k' (errno r))), s')
         else (Inr (ret_val r, buffer\<lparr>content := write_back (content buffer) (written r)\<rparr>), s'))"

text \<open>\<^verbatim>\<open>Mailbox::checkReturnValue\<close>.\<close>

definition checkReturnValue :: "u32 \<Rightarrow> bool" where
  "checkReturnValue v =
     (if drop_bit 31 v \<noteq> 0 then v = 0x80000000 else False)"

subsection \<open>The firmware requests\<close>

text \<open>
  Each request builds its message, calls \<^const>\<open>mailboxCall\<close>, tests the returned
  integer for \<open>< 0\<close> as the source does, and reads slot 0 of the answer.
\<close>

text \<open>\<^verbatim>\<open>Mailbox::executeCode\<close>.\<close>

definition executeCode ::
  "'k platform \<Rightarrow> u32 \<Rightarrow> u32 \<Rightarrow> u32 \<Rightarrow> u32 \<Rightarrow> u32 \<Rightarrow> u32 \<Rightarrow> u32 \<Rightarrow> 'k world
     \<Rightarrow> (error + bool) \<times> 'k world" where
  "executeCode P codeAddress valueR0 valueR1 valueR2 valueR3 valueR4 valueR5 s =
     (let msg = MailboxMessage_init EXECUTE_CODE 7 1
                  [codeAddress, valueR0, valueR1, valueR2, valueR3, valueR4, valueR5]
      in case mailboxCall P msg s of
           (Inl e, s') \<Rightarrow> (Inl e, s')
         | (Inr (ret, msg'), s') \<Rightarrow>
             if ret < 0 then (Inr False, s')
             else (Inr (getContent msg' 0 = 0), s'))"

text \<open>
  \<^verbatim>\<open>Mailbox::executeQPU\<close>. The comparison is on the signed 64-bit count. The
  \<^verbatim>\<open>return false\<close> of the timeout test stands between \<^verbatim>\<open>#ifdef DEBUG_MODE\<close> and
  \<^verbatim>\<open>#endif\<close>, so it exists in a debug build only; in every build the count is then cut
  to 32 bits by \<^verbatim>\<open>static_cast<unsigned>\<close>. \<open>controlAddress\<close> is the pair of a host
  pointer and a device address; the device address is sent.
\<close>

definition executeQPU ::
  "'k platform \<Rightarrow> u32 \<Rightarrow> host_ptr \<times> u32 \<Rightarrow> bool \<Rightarrow> milliseconds \<Rightarrow> 'k world
     \<Rightarrow> (error + bool) \<times> 'k world" where
  "executeQPU P numQPUs controlAddress flushBuffer timeout s =
     (if 0xFFFFFFFF < sint timeout \<and> DEBUG_MODE P then (Inr False, s)
      else
        let msg = MailboxMessage_init EXECUTE_QPU 4 1
                    [numQPUs, snd controlAddress, of_bool (\<not> flushBuffer), ucast timeout]
        in case mailboxCall P msg s of
             (Inl e, s') \<Rightarrow> (Inl e, s')
           | (Inr (ret, msg'), s') \<Rightarrow>
               if ret < 0 then (Inr False, s')
               else (Inr (getContent msg' 0 = 0), s'))"

text \<open>
  \<^verbatim>\<open>Mailbox::getTotalGPUMemory\<close>. The member template \<^verbatim>\<open>readMailboxMessage\<close> is
  declared in \<^verbatim>\<open>Mailbox.h\<close> and is not among the sources: it is a parameter here, any
  function that takes the message and the world and either throws or returns its boolean
  with the message as answered.
\<close>

definition getTotalGPUMemory ::
  "(MailboxMessage \<Rightarrow> 's \<Rightarrow> (error + bool \<times> MailboxMessage) \<times> 's) \<Rightarrow> 's \<Rightarrow> (error + u32) \<times> 's" where
  "getTotalGPUMemory readMailboxMessage s =
     (let msg = SimpleQueryMessage VC_MEMORY
      in case readMailboxMessage msg s of
           (Inl e, s') \<Rightarrow> (Inl e, s')
         | (Inr (ok, msg'), s') \<Rightarrow>
             if \<not> ok then (Inr 0, s')
             else (Inr (getContent msg' 1 div 2), s'))"

text \<open>\<^verbatim>\<open>Mailbox::enableQPU\<close>.\<close>

definition enableQPU :: "'k platform \<Rightarrow> bool \<Rightarrow> 'k world \<Rightarrow> (error + bool) \<times> 'k world" where
  "enableQPU P enable s =
     (let msg = QueryMessage ENABLE_QPU (of_bool enable)
      in case mailboxCall P msg s of
           (Inl e, s') \<Rightarrow> (Inl e, s')
         | (Inr (ret, msg'), s') \<Rightarrow>
             if ret < 0 then (Inr False, s')
             else (Inr (getContent msg' 0 = 0 \<or> getContent msg' 0 = 0x80000000), s'))"

text \<open>\<^verbatim>\<open>Mailbox::memAlloc\<close>; \<^verbatim>\<open>MemoryFlag\<close> is sent as its word.\<close>

definition memAlloc ::
  "'k platform \<Rightarrow> u32 \<Rightarrow> u32 \<Rightarrow> u32 \<Rightarrow> 'k world \<Rightarrow> (error + u32) \<times> 'k world" where
  "memAlloc P sizeInBytes alignmentInBytes flags s =
     (let msg = MailboxMessage_init ALLOCATE_MEMORY 3 1 [sizeInBytes, alignmentInBytes, flags]
      in case mailboxCall P msg s of
           (Inl e, s') \<Rightarrow> (Inl e, s')
         | (Inr (ret, msg'), s') \<Rightarrow>
             if ret < 0 then (Inr 0, s')
             else (Inr (getContent msg' 0), s'))"

text \<open>\<^verbatim>\<open>Mailbox::memLock\<close>; a \<^verbatim>\<open>DevicePointer\<close> is its 32-bit address.\<close>

definition memLock :: "'k platform \<Rightarrow> u32 \<Rightarrow> 'k world \<Rightarrow> (error + u32) \<times> 'k world" where
  "memLock P handle s =
     (let msg = QueryMessage LOCK_MEMORY handle
      in case mailboxCall P msg s of
           (Inl e, s') \<Rightarrow> (Inl e, s')
         | (Inr (ret, msg'), s') \<Rightarrow>
             if ret < 0 then (Inr 0, s')
             else (Inr (getContent msg' 0), s'))"

text \<open>\<^verbatim>\<open>Mailbox::memUnlock\<close>.\<close>

definition memUnlock :: "'k platform \<Rightarrow> u32 \<Rightarrow> 'k world \<Rightarrow> (error + bool) \<times> 'k world" where
  "memUnlock P handle s =
     (let msg = QueryMessage UNLOCK_MEMORY handle
      in case mailboxCall P msg s of
           (Inl e, s') \<Rightarrow> (Inl e, s')
         | (Inr (ret, msg'), s') \<Rightarrow>
             if ret < 0 then (Inr False, s')
             else (Inr (getContent msg' 0 = 0), s'))"

text \<open>\<^verbatim>\<open>Mailbox::memFree\<close>.\<close>

definition memFree :: "'k platform \<Rightarrow> u32 \<Rightarrow> 'k world \<Rightarrow> (error + bool) \<times> 'k world" where
  "memFree P handle s =
     (let msg = QueryMessage RELEASE_MEMORY handle
      in case mailboxCall P msg s of
           (Inl e, s') \<Rightarrow> (Inl e, s')
         | (Inr (ret, msg'), s') \<Rightarrow>
             if ret < 0 then (Inr False, s')
             else (Inr (getContent msg' 0 = 0), s'))"

subsection \<open>Buffers\<close>

text \<open>The two host-mapping helpers, each recorded as a system call.\<close>

definition mapmem_call :: "'k platform \<Rightarrow> u32 \<Rightarrow> u32 \<Rightarrow> 'k world \<Rightarrow> host_ptr \<times> 'k world" where
  "mapmem_call P base n s =
     (let (p, k') = mapmem P (kernel s) base n
      in (p, s\<lparr>kernel := k', trace := trace s @ [Mapmem base n]\<rparr>))"

definition unmapmem_call :: "'k platform \<Rightarrow> host_ptr \<Rightarrow> u32 \<Rightarrow> 'k world \<Rightarrow> 'k world" where
  "unmapmem_call P addr n s =
     s\<lparr>kernel := unmapmem P (kernel s) addr n, trace := trace s @ [Unmapmem addr n]\<rparr>"

text \<open>\<^verbatim>\<open>new DeviceBuffer(handle, devPtr, hostPtr, size)\<close>: the constructor stores its arguments.\<close>

definition new_DeviceBuffer :: "DeviceBuffer \<Rightarrow> 'k world \<Rightarrow> nat \<times> 'k world" where
  "new_DeviceBuffer b s =
     (next_ptr s, s\<lparr>heap := (heap s)(next_ptr s \<mapsto> b), next_ptr := Suc (next_ptr s)\<rparr>)"

text \<open>
  \<^verbatim>\<open>Mailbox::allocateBuffer\<close>. The result is the pointer to the new object, or
  \<open>None\<close> for \<^verbatim>\<open>nullptr\<close>. Neither the address \<^verbatim>\<open>memLock\<close> returns nor the
  pointer \<^verbatim>\<open>mapmem\<close> returns is tested. \<^verbatim>\<open>new\<close> is taken to find memory.
\<close>

definition allocateBuffer ::
  "'k platform \<Rightarrow> u32 \<Rightarrow> u32 \<Rightarrow> u32 \<Rightarrow> 'k world \<Rightarrow> (error + nat option) \<times> 'k world" where
  "allocateBuffer P sizeInBytes alignmentInBytes flags s =
     (case memAlloc P sizeInBytes (max (PAGE_ALIGNMENT P) alignmentInBytes) flags s of
        (Inl e, s1) \<Rightarrow> (Inl e, s1)
      | (Inr handle, s1) \<Rightarrow>
          if handle \<noteq> 0 then
            (case memLock P handle s1 of
               (Inl e, s2) \<Rightarrow> (Inl e, s2)
             | (Inr qpuPointer', s2) \<Rightarrow>
                 let (hostPointer', s3) =
                       mapmem_call P (busAddressToPhysicalAddress P qpuPointer') sizeInBytes s2;
                     (p, s4) =
                       new_DeviceBuffer
                         \<lparr>memHandle = handle, qpuPointer = qpuPointer',
                          hostPointer = hostPointer', size_bytes = sizeInBytes\<rparr> s3
                 in (Inr (Some p), s4))
          else (Inr None, s1))"

text \<open>
  \<^verbatim>\<open>Mailbox::deallocateBuffer\<close>. The buffer comes as a pointer to a constant object:
  it is read and never written. A pointer to no live object is outside what C++ defines
  and is a value of its own here.
\<close>

definition deallocateBuffer :: "'k platform \<Rightarrow> nat \<Rightarrow> 'k world \<Rightarrow> (error + bool) \<times> 'k world" where
  "deallocateBuffer P p s =
     (case heap s p of
        None \<Rightarrow> (Inl invalid_pointer, s)
      | Some buffer \<Rightarrow>
          let s1 = (if hostPointer buffer \<noteq> 0
                    then unmapmem_call P (hostPointer buffer) (size_bytes buffer) s else s)
          in if memHandle buffer \<noteq> 0 then
               (case memUnlock P (memHandle buffer) s1 of
                  (Inl e, s2) \<Rightarrow> (Inl e, s2)
                | (Inr unlocked, s2) \<Rightarrow>
                    if \<not> unlocked then (Inr False, s2)
                    else
                      (case memFree P (memHandle buffer) s2 of
                         (Inl e, s3) \<Rightarrow> (Inl e, s3)
                       | (Inr freed, s3) \<Rightarrow>
                           if \<not> freed then (Inr False, s3) else (Inr True, s3)))
             else (Inr True, s1))"

text \<open>
  The body of \<^verbatim>\<open>DeviceBuffer::~DeviceBuffer\<close>: the boolean of
  \<^verbatim>\<open>deallocateBuffer\<close> is dropped, and an exception that would leave the destructor
  ends the process.
\<close>

definition DeviceBuffer_destructor :: "'k platform \<Rightarrow> nat \<Rightarrow> 'k world \<Rightarrow> (error + unit) \<times> 'k world" where
  "DeviceBuffer_destructor P p s =
     (case heap s p of
        None \<Rightarrow> (Inl invalid_pointer, s)
      | Some buffer \<Rightarrow>
          if memHandle buffer \<noteq> 0 then
            (case deallocateBuffer P p s of
               (Inl e, s') \<Rightarrow> (Inl terminate, s')
             | (Inr released, s') \<Rightarrow> (Inr (), s'))
          else (Inr (), s))"

subsection \<open>Event actions\<close>

text \<open>
  \<^verbatim>\<open>std::function<cl_int(Event*)>\<close>: empty, or a target that may change the state
  and may throw. \<open>'ev\<close> stands for \<^verbatim>\<open>Event*\<close>.
\<close>

datatype ('ev, 's) std_function =
    empty_function
  | target "'ev \<Rightarrow> 's \<Rightarrow> (error + cl_int) \<times> 's"

text \<open>The two variants of \<^verbatim>\<open>EventAction\<close> in \<^verbatim>\<open>Event.h\<close>, each with its one field.\<close>

datatype ('ev, 's) EventAction =
    CustomAction "('ev, 's) std_function"
  | NoAction cl_int

text \<open>\<^verbatim>\<open>operator()\<close> of both variants.\<close>

fun call_operator :: "('ev, 's) EventAction \<Rightarrow> 'ev \<Rightarrow> 's \<Rightarrow> (error + cl_int) \<times> 's" where
  "call_operator (CustomAction (target func)) event s = func event s"
| "call_operator (CustomAction empty_function) event s = (Inl bad_function_call, s)"
| "call_operator (NoAction status) event s = (Inr status, s)"

subsection \<open>A scripted kernel for concrete runs\<close>

text \<open>
  A kernel whose state is the list of answers it still has to give: each call takes the
  next one, and a call after the last fails with \<open>-1\<close> and \<^verbatim>\<open>errno\<close> 5. Its
  \<^verbatim>\<open>mapmem\<close> maps physical address \<open>a\<close> to host address \<open>a + 4096\<close>, and address
  0 to \<^verbatim>\<open>nullptr\<close>. Its output statements leave \<^verbatim>\<open>errno\<close> alone.
\<close>

fun scripted_ioctl :: "ioctl_result list \<Rightarrow> MailboxMessage \<Rightarrow> ioctl_result \<times> ioctl_result list" where
  "scripted_ioctl [] msg = (\<lparr>ret_val = - 1, errno = 5, written = []\<rparr>, [])"
| "scripted_ioctl (r # rs) msg = (r, rs)"

definition answer :: "u32 list \<Rightarrow> ioctl_result" where
  "answer ws = \<lparr>ret_val = 0, errno = 0, written = ws\<rparr>"

definition scripted_platform :: "bool \<Rightarrow> (ioctl_result list) platform" where
  "scripted_platform debug =
     \<lparr>DEBUG_MODE = debug, PAGE_ALIGNMENT = 4096, ioctl = scripted_ioctl,
      mapmem = (\<lambda>k base n. (if base = 0 then 0 else unat base + 4096, k)),
      unmapmem = (\<lambda>k addr n. k),
      busAddressToPhysicalAddress = (\<lambda>a. a AND 0x3FFFFFFF),
      errno_after_output = (\<lambda>k e. e)\<rparr>"

text \<open>
  The same system with standard streams on which the output statements fail and leave
  \<^verbatim>\<open>errno\<close> at 22 (\<^verbatim>\<open>EINVAL\<close>).
\<close>

definition overwriting_platform :: "(ioctl_result list) platform" where
  "overwriting_platform = (scripted_platform False)\<lparr>errno_after_output := (\<lambda>k e. 22)\<rparr>"

definition start :: "ioctl_result list \<Rightarrow> (ioctl_result list) world" where
  "start script = \<lparr>kernel = script, trace = [], heap = Map.empty, next_ptr = 1\<rparr>"

text \<open>
  A reader for \<^const>\<open>getTotalGPUMemory\<close> that returns the given boolean and writes the
  given words into the message; its state counts the calls.
\<close>

definition fixed_reader ::
  "bool \<Rightarrow> u32 list \<Rightarrow> MailboxMessage \<Rightarrow> nat \<Rightarrow> (error + bool \<times> MailboxMessage) \<times> nat" where
  "fixed_reader ok ws msg n = (Inr (ok, msg\<lparr>content := write_back (content msg) ws\<rparr>), Suc n)"

text \<open>The runs that the theorems below evaluate.\<close>

definition oversized_timeout_run :: "(error + bool) \<times> (ioctl_result list) world" where
  "oversized_timeout_run =
     executeQPU (scripted_platform False) 12 (0, 0x1000) True 0x100000000 (start [answer [0]])"

definition denied_lock_run :: "(error + u32) \<times> (ioctl_result list) world" where
  "denied_lock_run =
     memLock overwriting_platform 5 (start [\<lparr>ret_val = - 1, errno = 13, written = []\<rparr>])"

definition lock_failure_run :: "(error + nat option) \<times> (ioctl_result list) world" where
  "lock_failure_run =
     allocateBuffer (scripted_platform False) 64 16 0 (start [answer [5], answer [0]])"

definition roundtrip_script :: "ioctl_result list" where
  "roundtrip_script = [answer [5], answer [0xC0002000], answer [0], answer [0], answer [1]]"

definition roundtrip_allocated :: "(error + nat option) \<times> (ioctl_result list) world" where
  "roundtrip_allocated = allocateBuffer (scripted_platform False) 64 16 0 (start roundtrip_script)"

definition roundtrip_released :: "(error + bool) \<times> (ioctl_result list) world" where
  "roundtrip_released = deallocateBuffer (scripted_platform False) 1 (snd roundtrip_allocated)"

definition roundtrip_released_twice :: "(error + bool) \<times> (ioctl_result list) world" where
  "roundtrip_released_twice = deallocateBuffer (scripted_platform False) 1 (snd roundtrip_released)"

text \<open>A world whose one buffer has neither a handle nor a host mapping.\<close>

definition nothing_to_release :: "(ioctl_result list) world" where
  "nothing_to_release =
     \<lparr>kernel = [], trace = [],
      heap = [1 \<mapsto> \<lparr>memHandle = 0, qpuPointer = 0, hostPointer = 0, size_bytes = 64\<rparr>],
      next_ptr = 2\<rparr>"

subsection \<open>Vocabulary of the statements\<close>

text \<open>
  What the kernel answers to a message sent in a given world, the \<^verbatim>\<open>errno\<close> that
  \<^const>\<open>mailboxCall\<close> reads at its \<^verbatim>\<open>throw\<close> when that call fails, the message
  as answered, and the world after the call.
\<close>

definition ioctl_outcome :: "'k platform \<Rightarrow> 'k world \<Rightarrow> MailboxMessage \<Rightarrow> ioctl_result" where
  "ioctl_outcome P s msg = fst (ioctl P (kernel s) msg)"

definition thrown_errno :: "'k platform \<Rightarrow> 'k world \<Rightarrow> MailboxMessage \<Rightarrow> int" where
  "thrown_errno P s msg =
     errno_after_output P (snd (ioctl P (kernel s) msg)) (errno (ioctl_outcome P s msg))"

definition answered :: "'k platform \<Rightarrow> 'k world \<Rightarrow> MailboxMessage \<Rightarrow> MailboxMessage" where
  "answered P s msg = msg\<lparr>content := write_back (content msg) (written (ioctl_outcome P s msg))\<rparr>"

definition after_call :: "'k platform \<Rightarrow> 'k world \<Rightarrow> MailboxMessage \<Rightarrow> 'k world" where
  "after_call P s msg = s\<lparr>kernel := snd (ioctl P (kernel s) msg), trace := trace s @ [Ioctl msg]\<rparr>"

text \<open>
  A request as it would read with the test \<^verbatim>\<open>mailboxCall(...) < 0\<close> and its branch
  removed: the call, then the function of slot 0 of the answer.
\<close>

definition without_failure_branch ::
  "'k platform \<Rightarrow> MailboxMessage \<Rightarrow> (u32 \<Rightarrow> 'a) \<Rightarrow> 'k world \<Rightarrow> (error + 'a) \<times> 'k world" where
  "without_failure_branch P msg f s =
     (case mailboxCall P msg s of
        (Inl e, s') \<Rightarrow> (Inl e, s')
      | (Inr (ret, msg'), s') \<Rightarrow> (Inr (f (getContent msg' 0)), s'))"

text \<open>The messages with a given tag among a list of system calls, in order.\<close>

definition requests_with_tag :: "MailboxTag \<Rightarrow> syscall list \<Rightarrow> MailboxMessage list" where
  "requests_with_tag t calls = concat (map (\<lambda>c. case c of Ioctl m \<Rightarrow> (if tag m = t then [m] else []) | _ \<Rightarrow> []) calls)"

section \<open>Properties\<close>

subsection \<open>Each request in terms of the kernel's answer\<close>

lemma mailboxCall_eq:
  "mailboxCall P msg s =
     (if ret_val (ioctl_outcome P s msg) < 0
      then (Inl (system_error (thrown_errno P s msg)), after_call P s msg)
      else (Inr (ret_val (ioctl_outcome P s msg), answered P s msg), after_call P s msg))"
  by (simp add: mailboxCall_def ioctl_outcome_def thrown_errno_def answered_def after_call_def Let_def split_def)

lemma after_call_sel [simp]:
  "trace (after_call P s msg) = trace s @ [Ioctl msg]"
  "heap (after_call P s msg) = heap s"
  "next_ptr (after_call P s msg) = next_ptr s"
  "kernel (after_call P s msg) = snd (ioctl P (kernel s) msg)"
  by (simp_all add: after_call_def)

lemma memAlloc_eq:
  "memAlloc P sz al fl s =
     (let m = MailboxMessage_init ALLOCATE_MEMORY 3 1 [sz, al, fl] in
      (if ret_val (ioctl_outcome P s m) < 0
       then Inl (system_error (thrown_errno P s m))
       else Inr (getContent (answered P s m) 0), after_call P s m))"
  by (simp add: memAlloc_def mailboxCall_eq Let_def)

lemma memLock_eq:
  "memLock P h s =
     (let m = QueryMessage LOCK_MEMORY h in
      (if ret_val (ioctl_outcome P s m) < 0
       then Inl (system_error (thrown_errno P s m))
       else Inr (getContent (answered P s m) 0), after_call P s m))"
  by (simp add: memLock_def mailboxCall_eq Let_def)

lemma memUnlock_eq:
  "memUnlock P h s =
     (let m = QueryMessage UNLOCK_MEMORY h in
      (if ret_val (ioctl_outcome P s m) < 0
       then Inl (system_error (thrown_errno P s m))
       else Inr (getContent (answered P s m) 0 = 0), after_call P s m))"
  by (simp add: memUnlock_def mailboxCall_eq Let_def)

lemma memFree_eq:
  "memFree P h s =
     (let m = QueryMessage RELEASE_MEMORY h in
      (if ret_val (ioctl_outcome P s m) < 0
       then Inl (system_error (thrown_errno P s m))
       else Inr (getContent (answered P s m) 0 = 0), after_call P s m))"
  by (simp add: memFree_def mailboxCall_eq Let_def)

lemma enableQPU_eq:
  "enableQPU P enable s =
     (let m = QueryMessage ENABLE_QPU (of_bool enable) in
      (if ret_val (ioctl_outcome P s m) < 0
       then Inl (system_error (thrown_errno P s m))
       else Inr (getContent (answered P s m) 0 = 0 \<or> getContent (answered P s m) 0 = 0x80000000),
       after_call P s m))"
  by (simp add: enableQPU_def mailboxCall_eq Let_def)

lemma executeCode_eq:
  "executeCode P a r0 r1 r2 r3 r4 r5 s =
     (let m = MailboxMessage_init EXECUTE_CODE 7 1 [a, r0, r1, r2, r3, r4, r5] in
      (if ret_val (ioctl_outcome P s m) < 0
       then Inl (system_error (thrown_errno P s m))
       else Inr (getContent (answered P s m) 0 = 0), after_call P s m))"
  by (simp add: executeCode_def mailboxCall_eq Let_def)

lemma executeQPU_eq:
  "executeQPU P n ca fl t s =
     (if 0xFFFFFFFF < sint t \<and> DEBUG_MODE P then (Inr False, s)
      else let m = MailboxMessage_init EXECUTE_QPU 4 1 [n, snd ca, of_bool (\<not> fl), ucast t] in
      (if ret_val (ioctl_outcome P s m) < 0
       then Inl (system_error (thrown_errno P s m))
       else Inr (getContent (answered P s m) 0 = 0), after_call P s m))"
  by (simp add: executeQPU_def mailboxCall_eq Let_def)

lemma requests_with_tag_simps [simp]:
  "requests_with_tag t [] = []"
  "requests_with_tag t (Ioctl m # cs) = (if tag m = t then [m] else []) @ requests_with_tag t cs"
  "requests_with_tag t (Mapmem b n # cs) = requests_with_tag t cs"
  "requests_with_tag t (Unmapmem a n # cs) = requests_with_tag t cs"
  by (simp_all add: requests_with_tag_def)

lemma tag_init [simp]: "tag (MailboxMessage_init t n m ws) = t"
  by (simp add: MailboxMessage_init_def)

lemma tag_QueryMessage [simp]: "tag (QueryMessage t x) = t"
  by (simp add: QueryMessage_def)

lemma allocateBuffer_eq:
  "allocateBuffer P sz al fl s =
     (let m1 = MailboxMessage_init ALLOCATE_MEMORY 3 1 [sz, max (PAGE_ALIGNMENT P) al, fl];
          s1 = after_call P s m1;
          h = getContent (answered P s m1) 0;
          m2 = QueryMessage LOCK_MEMORY h;
          s2 = after_call P s1 m2;
          q = getContent (answered P s1 m2) 0;
          base = busAddressToPhysicalAddress P q
      in if ret_val (ioctl_outcome P s m1) < 0
         then (Inl (system_error (thrown_errno P s m1)), s1)
         else if h = 0 then (Inr None, s1)
         else if ret_val (ioctl_outcome P s1 m2) < 0
         then (Inl (system_error (thrown_errno P s1 m2)), s2)
         else (Inr (Some (next_ptr s)),
               s2\<lparr>kernel := snd (mapmem P (kernel s2) base sz),
                  trace := trace s2 @ [Mapmem base sz],
                  heap := (heap s)(next_ptr s \<mapsto>
                     \<lparr>memHandle = h, qpuPointer = q,
                      hostPointer = fst (mapmem P (kernel s2) base sz), size_bytes = sz\<rparr>),
                  next_ptr := Suc (next_ptr s)\<rparr>))"
  by (simp add: allocateBuffer_def memAlloc_eq memLock_eq mapmem_call_def new_DeviceBuffer_def
      Let_def split_def)

subsection \<open>The timeout of executeQPU\<close>

text \<open>
  C1. A timeout above \<open>0xFFFFFFFF\<close> milliseconds is to be rejected before any system
  call. In a build without \<^verbatim>\<open>DEBUG_MODE\<close> the timeout \<open>0x100000000\<close> is not
  rejected: the request is sent, with the timeout word cut to 0, and the firmware's answer
  decides the result.
\<close>

theorem oversized_timeout_release_build:
  "oversized_timeout_run =
     (Inr True,
      \<lparr>kernel = [],
       trace = [Ioctl \<lparr>tag = EXECUTE_QPU, content = [12, 0x1000, 0, 0]\<rparr>],
       heap = Map.empty, next_ptr = 1\<rparr>)"
  by (simp add: oversized_timeout_run_def executeQPU_def mailboxCall_def scripted_platform_def
      start_def answer_def MailboxMessage_init_def getContent_def write_back_def Let_def)

text \<open>In a debug build the same test returns \<open>False\<close> and leaves the world as it was.\<close>

lemma executeQPU_debug_rejects:
  "DEBUG_MODE P \<Longrightarrow> 0xFFFFFFFF < sint timeout \<Longrightarrow>
     executeQPU P numQPUs controlAddress flushBuffer timeout s = (Inr False, s)"
  by (simp add: executeQPU_def)

subsection \<open>Failures of the system call and failures in the answer\<close>

text \<open>
  For each of the seven requests: a negative \<^verbatim>\<open>ioctl\<close> return surfaces as
  \<^const>\<open>system_error\<close>, and only then, carrying \<^verbatim>\<open>errno\<close> as it stands at the
  \<^verbatim>\<open>throw\<close>; any other return surfaces as an ordinary value computed from slot 0 of
  the answer (the handle, the address, or the boolean of the test on the content word),
  whatever that word is.
\<close>

lemma requests_in_terms_of_answer:
  "fst (memAlloc P sz al fl s) =
     (if ret_val (ioctl_outcome P s (MailboxMessage_init ALLOCATE_MEMORY 3 1 [sz, al, fl])) < 0
      then Inl (system_error (thrown_errno P s (MailboxMessage_init ALLOCATE_MEMORY 3 1 [sz, al, fl])))
      else Inr (getContent (answered P s (MailboxMessage_init ALLOCATE_MEMORY 3 1 [sz, al, fl])) 0))
   \<and> fst (memLock P h s) =
     (if ret_val (ioctl_outcome P s (QueryMessage LOCK_MEMORY h)) < 0
      then Inl (system_error (thrown_errno P s (QueryMessage LOCK_MEMORY h)))
      else Inr (getContent (answered P s (QueryMessage LOCK_MEMORY h)) 0))
   \<and> fst (memUnlock P h s) =
     (if ret_val (ioctl_outcome P s (QueryMessage UNLOCK_MEMORY h)) < 0
      then Inl (system_error (thrown_errno P s (QueryMessage UNLOCK_MEMORY h)))
      else Inr (getContent (answered P s (QueryMessage UNLOCK_MEMORY h)) 0 = 0))
   \<and> fst (memFree P h s) =
     (if ret_val (ioctl_outcome P s (QueryMessage RELEASE_MEMORY h)) < 0
      then Inl (system_error (thrown_errno P s (QueryMessage RELEASE_MEMORY h)))
      else Inr (getContent (answered P s (QueryMessage RELEASE_MEMORY h)) 0 = 0))
   \<and> fst (executeCode P a r0 r1 r2 r3 r4 r5 s) =
     (if ret_val (ioctl_outcome P s (MailboxMessage_init EXECUTE_CODE 7 1 [a, r0, r1, r2, r3, r4, r5])) < 0
      then Inl (system_error (thrown_errno P s (MailboxMessage_init EXECUTE_CODE 7 1 [a, r0, r1, r2, r3, r4, r5])))
      else Inr (getContent (answered P s (MailboxMessage_init EXECUTE_CODE 7 1 [a, r0, r1, r2, r3, r4, r5])) 0 = 0))
   \<and> fst (executeQPU P n ca flush t s) =
     (if 0xFFFFFFFF < sint t \<and> DEBUG_MODE P then Inr False
      else if ret_val (ioctl_outcome P s (MailboxMessage_init EXECUTE_QPU 4 1 [n, snd ca, of_bool (\<not> flush), ucast t])) < 0
      then Inl (system_error (thrown_errno P s (MailboxMessage_init EXECUTE_QPU 4 1 [n, snd ca, of_bool (\<not> flush), ucast t])))
      else Inr (getContent (answered P s (MailboxMessage_init EXECUTE_QPU 4 1 [n, snd ca, of_bool (\<not> flush), ucast t])) 0 = 0))
   \<and> fst (enableQPU P enable s) =
     (if ret_val (ioctl_outcome P s (QueryMessage ENABLE_QPU (of_bool enable))) < 0
      then Inl (system_error (thrown_errno P s (QueryMessage ENABLE_QPU (of_bool enable))))
      else Inr (getContent (answered P s (QueryMessage ENABLE_QPU (of_bool enable))) 0 = 0
                \<or> getContent (answered P s (QueryMessage ENABLE_QPU (of_bool enable))) 0 = 0x80000000))"
proof -
  have 1: "fst (memAlloc P sz al fl s) =
     (if ret_val (ioctl_outcome P s (MailboxMessage_init ALLOCATE_MEMORY 3 1 [sz, al, fl])) < 0
      then Inl (system_error (thrown_errno P s (MailboxMessage_init ALLOCATE_MEMORY 3 1 [sz, al, fl])))
      else Inr (getContent (answered P s (MailboxMessage_init ALLOCATE_MEMORY 3 1 [sz, al, fl])) 0))"
    by (simp add: memAlloc_eq Let_def)
  have 2: "fst (memLock P h s) =
     (if ret_val (ioctl_outcome P s (QueryMessage LOCK_MEMORY h)) < 0
      then Inl (system_error (thrown_errno P s (QueryMessage LOCK_MEMORY h)))
      else Inr (getContent (answered P s (QueryMessage LOCK_MEMORY h)) 0))"
    by (simp add: memLock_eq Let_def)
  have 3: "fst (memUnlock P h s) =
     (if ret_val (ioctl_outcome P s (QueryMessage UNLOCK_MEMORY h)) < 0
      then Inl (system_error (thrown_errno P s (QueryMessage UNLOCK_MEMORY h)))
      else Inr (getContent (answered P s (QueryMessage UNLOCK_MEMORY h)) 0 = 0))"
    by (simp add: memUnlock_eq Let_def)
  have 4: "fst (memFree P h s) =
     (if ret_val (ioctl_outcome P s (QueryMessage RELEASE_MEMORY h)) < 0
      then Inl (system_error (thrown_errno P s (QueryMessage RELEASE_MEMORY h)))
      else Inr (getContent (answered P s (QueryMessage RELEASE_MEMORY h)) 0 = 0))"
    by (simp add: memFree_eq Let_def)
  have 5: "fst (executeCode P a r0 r1 r2 r3 r4 r5 s) =
     (if ret_val (ioctl_outcome P s (MailboxMessage_init EXECUTE_CODE 7 1 [a, r0, r1, r2, r3, r4, r5])) < 0
      then Inl (system_error (thrown_errno P s (MailboxMessage_init EXECUTE_CODE 7 1 [a, r0, r1, r2, r3, r4, r5])))
      else Inr (getContent (answered P s (MailboxMessage_init EXECUTE_CODE 7 1 [a, r0, r1, r2, r3, r4, r5])) 0 = 0))"
    by (simp add: executeCode_eq Let_def)
  have 6: "fst (executeQPU P n ca flush t s) =
     (if 0xFFFFFFFF < sint t \<and> DEBUG_MODE P then Inr False
      else if ret_val (ioctl_outcome P s (MailboxMessage_init EXECUTE_QPU 4 1 [n, snd ca, of_bool (\<not> flush), ucast t])) < 0
      then Inl (system_error (thrown_errno P s (MailboxMessage_init EXECUTE_QPU 4 1 [n, snd ca, of_bool (\<not> flush), ucast t])))
      else Inr (getContent (answered P s (MailboxMessage_init EXECUTE_QPU 4 1 [n, snd ca, of_bool (\<not> flush), ucast t])) 0 = 0))"
    by (simp add: executeQPU_eq Let_def)
  have 7: "fst (enableQPU P enable s) =
     (if ret_val (ioctl_outcome P s (QueryMessage ENABLE_QPU (of_bool enable))) < 0
      then Inl (system_error (thrown_errno P s (QueryMessage ENABLE_QPU (of_bool enable))))
      else Inr (getContent (answered P s (QueryMessage ENABLE_QPU (of_bool enable))) 0 = 0
                \<or> getContent (answered P s (QueryMessage ENABLE_QPU (of_bool enable))) 0 = 0x80000000))"
    by (simp add: enableQPU_eq Let_def)
  from 1 2 3 4 5 6 7 show ?thesis by (intro conjI)
qed

text \<open>
  C4. A failing system call is to surface as a system-level failure carrying the OS error
  code. At this run the \<^verbatim>\<open>ioctl\<close> of a lock request fails with \<^verbatim>\<open>errno\<close> 13
  (\<^verbatim>\<open>EACCES\<close>); the two output statements that \<^verbatim>\<open>mailboxCall\<close> runs before
  its \<^verbatim>\<open>throw\<close> leave \<^verbatim>\<open>errno\<close> at 22, and the exception carries 22, not
  the code of the failed call.
\<close>

theorem failed_call_errno_overwritten:
  "errno (ioctl_outcome overwriting_platform
            (start [\<lparr>ret_val = - 1, errno = 13, written = []\<rparr>]) (QueryMessage LOCK_MEMORY 5)) = 13
   \<and> denied_lock_run =
       (Inl (system_error 22),
        \<lparr>kernel = [], trace = [Ioctl \<lparr>tag = LOCK_MEMORY, content = [5]\<rparr>],
         heap = Map.empty, next_ptr = 1\<rparr>)"
  by (simp add: denied_lock_run_def memLock_def mailboxCall_def ioctl_outcome_def
      overwriting_platform_def scripted_platform_def start_def QueryMessage_def
      MailboxMessage_init_def Let_def)

text \<open>Where the output statements leave \<^verbatim>\<open>errno\<close> alone, the code of the failed call is carried.\<close>

lemma failed_call_errno_kept:
  "\<forall>k e. errno_after_output P k e = e \<Longrightarrow>
     thrown_errno P s msg = errno (ioctl_outcome P s msg)"
  by (simp add: thrown_errno_def)

subsection \<open>enableQPU\<close>

text \<open>
  C5. \<^const>\<open>enableQPU\<close> returns true exactly when the call does not fail and the
  content word of the answer is 0 or \<open>0x80000000\<close>.
\<close>

theorem enableQPU_true_iff:
  "(fst (enableQPU P enable s) = Inr True) =
     (0 \<le> ret_val (ioctl_outcome P s (QueryMessage ENABLE_QPU (of_bool enable)))
      \<and> (getContent (answered P s (QueryMessage ENABLE_QPU (of_bool enable))) 0 = 0
         \<or> getContent (answered P s (QueryMessage ENABLE_QPU (of_bool enable))) 0 = 0x80000000))"
  by (auto simp add: enableQPU_eq Let_def)

text \<open>
  Enabling while another holder has the processor enabled: the firmware answers
  \<open>0x80000000\<close> and the result is true.
\<close>

lemma enableQPU_already_enabled:
  "fst (enableQPU (scripted_platform False) True (start [answer [0x80000000]])) = Inr True"
  by (simp add: enableQPU_def mailboxCall_def scripted_platform_def start_def answer_def
      QueryMessage_def MailboxMessage_init_def write_back_def getContent_def Let_def)

subsection \<open>The alignment sent by an allocation\<close>

text \<open>\<^const>\<open>memAlloc\<close> itself sends the alignment it is given.\<close>

lemma memAlloc_forwards_alignment:
  "trace (snd (memAlloc P sz al fl s)) =
     trace s @ [Ioctl \<lparr>tag = ALLOCATE_MEMORY, content = [sz, al, fl]\<rparr>]"
  by (simp add: memAlloc_eq Let_def MailboxMessage_init_def)

text \<open>
  C6. For every size, alignment and flags, the one allocate-memory request that
  \<^const>\<open>allocateBuffer\<close> sends carries the maximum of the page alignment and the
  caller's alignment, which is at least either of them.
\<close>

theorem allocateBuffer_alignment_raised:
  "requests_with_tag ALLOCATE_MEMORY
       (drop (length (trace s)) (trace (snd (allocateBuffer P sz al fl s)))) =
     [\<lparr>tag = ALLOCATE_MEMORY, content = [sz, max (PAGE_ALIGNMENT P) al, fl]\<rparr>]
   \<and> PAGE_ALIGNMENT P \<le> max (PAGE_ALIGNMENT P) al
   \<and> al \<le> max (PAGE_ALIGNMENT P) al"
proof -
  have m: "MailboxMessage_init ALLOCATE_MEMORY 3 1 [sz, max (PAGE_ALIGNMENT P) al, fl] =
      \<lparr>tag = ALLOCATE_MEMORY, content = [sz, max (PAGE_ALIGNMENT P) al, fl]\<rparr>"
    by (simp add: MailboxMessage_init_def)
  have "requests_with_tag ALLOCATE_MEMORY
       (drop (length (trace s)) (trace (snd (allocateBuffer P sz al fl s)))) =
     [MailboxMessage_init ALLOCATE_MEMORY 3 1 [sz, max (PAGE_ALIGNMENT P) al, fl]]"
    by (simp add: allocateBuffer_eq Let_def)
  then show ?thesis
    unfolding m by simp
qed

subsection \<open>allocateBuffer\<close>

text \<open>
  C2, as stated: \<^const>\<open>allocateBuffer\<close> returns null exactly when a step fails, and
  releases the handle when the lock or the mapping fails. It fails at this run: the
  allocation gives handle 5, the lock gives the null address and \<^verbatim>\<open>mapmem\<close> the
  null pointer, and \<^const>\<open>allocateBuffer\<close> returns a buffer that holds handle 5, having
  sent no release request.
\<close>

theorem allocateBuffer_lock_failure_counterexample:
  "fst lock_failure_run = Inr (Some 1)
   \<and> heap (snd lock_failure_run) 1 =
       Some \<lparr>memHandle = 5, qpuPointer = 0, hostPointer = 0, size_bytes = 64\<rparr>
   \<and> trace (snd lock_failure_run) =
       [Ioctl \<lparr>tag = ALLOCATE_MEMORY, content = [64, 4096, 0]\<rparr>,
        Ioctl \<lparr>tag = LOCK_MEMORY, content = [5]\<rparr>,
        Mapmem 0 64]"
  by (simp add: lock_failure_run_def allocateBuffer_def memAlloc_def memLock_def mailboxCall_def
      mapmem_call_def new_DeviceBuffer_def scripted_platform_def start_def answer_def
      QueryMessage_def MailboxMessage_init_def write_back_def getContent_def Let_def)

text \<open>
  C2, amended: \<^const>\<open>allocateBuffer\<close> returns null exactly when the allocate-memory
  request returns the zero handle. When the handle is not zero and the lock request returns,
  with whatever address, it returns a new buffer holding the handle, that address and
  whatever \<^verbatim>\<open>mapmem\<close> gave, and it sends no unlock and no release request.
\<close>

theorem allocateBuffer_null_iff_zero_handle:
  "(fst (allocateBuffer P sz al fl s) = Inr None) =
     (fst (memAlloc P sz (max (PAGE_ALIGNMENT P) al) fl s) = Inr 0)
   \<and> (memAlloc P sz (max (PAGE_ALIGNMENT P) al) fl s = (Inr h, s') \<and> h \<noteq> 0
        \<and> memLock P h s' = (Inr q, s'') \<longrightarrow>
      fst (allocateBuffer P sz al fl s) = Inr (Some (next_ptr s))
      \<and> heap (snd (allocateBuffer P sz al fl s)) (next_ptr s) =
          Some \<lparr>memHandle = h, qpuPointer = q,
                hostPointer = fst (mapmem P (kernel s'') (busAddressToPhysicalAddress P q) sz),
                size_bytes = sz\<rparr>
      \<and> requests_with_tag UNLOCK_MEMORY
          (drop (length (trace s)) (trace (snd (allocateBuffer P sz al fl s)))) = []
      \<and> requests_with_tag RELEASE_MEMORY
          (drop (length (trace s)) (trace (snd (allocateBuffer P sz al fl s)))) = [])"
proof -
  have 1: "(fst (allocateBuffer P sz al fl s) = Inr None) =
     (fst (memAlloc P sz (max (PAGE_ALIGNMENT P) al) fl s) = Inr 0)"
    by (simp add: allocateBuffer_eq memAlloc_eq Let_def)
  have 2: "memAlloc P sz (max (PAGE_ALIGNMENT P) al) fl s = (Inr h, s') \<and> h \<noteq> 0
        \<and> memLock P h s' = (Inr q, s'') \<longrightarrow>
      fst (allocateBuffer P sz al fl s) = Inr (Some (next_ptr s))
      \<and> heap (snd (allocateBuffer P sz al fl s)) (next_ptr s) =
          Some \<lparr>memHandle = h, qpuPointer = q,
                hostPointer = fst (mapmem P (kernel s'') (busAddressToPhysicalAddress P q) sz),
                size_bytes = sz\<rparr>
      \<and> requests_with_tag UNLOCK_MEMORY
          (drop (length (trace s)) (trace (snd (allocateBuffer P sz al fl s)))) = []
      \<and> requests_with_tag RELEASE_MEMORY
          (drop (length (trace s)) (trace (snd (allocateBuffer P sz al fl s)))) = []"
    by (auto simp add: allocateBuffer_eq memAlloc_eq memLock_eq Let_def split: if_splits)
  from 1 2 show ?thesis by (intro conjI)
qed

theorem allocateBuffer_null_iff_zero_handle_witness:
  "memAlloc (scripted_platform False) 64 (max (PAGE_ALIGNMENT (scripted_platform False)) 16) 0
       (start [answer [5], answer [0]]) =
     (Inr 5, \<lparr>kernel = [answer [0]],
              trace = [Ioctl \<lparr>tag = ALLOCATE_MEMORY, content = [64, 4096, 0]\<rparr>],
              heap = Map.empty, next_ptr = 1\<rparr>)
   \<and> (5 :: u32) \<noteq> 0
   \<and> memLock (scripted_platform False) 5
         \<lparr>kernel = [answer [0]],
          trace = [Ioctl \<lparr>tag = ALLOCATE_MEMORY, content = [64, 4096, 0]\<rparr>],
          heap = Map.empty, next_ptr = 1\<rparr> =
       (Inr 0, \<lparr>kernel = [],
                trace = [Ioctl \<lparr>tag = ALLOCATE_MEMORY, content = [64, 4096, 0]\<rparr>,
                         Ioctl \<lparr>tag = LOCK_MEMORY, content = [5]\<rparr>],
                heap = Map.empty, next_ptr = 1\<rparr>)
   \<and> fst (allocateBuffer (scripted_platform False) 64 16 0 (start [answer [5], answer [0]])) =
       Inr (Some 1)
   \<and> heap (snd (allocateBuffer (scripted_platform False) 64 16 0 (start [answer [5], answer [0]]))) 1 =
       Some \<lparr>memHandle = 5, qpuPointer = 0, hostPointer = 0, size_bytes = 64\<rparr>
   \<and> requests_with_tag RELEASE_MEMORY
         (trace (snd (allocateBuffer (scripted_platform False) 64 16 0
                        (start [answer [5], answer [0]])))) = []"
proof -
  let ?P = "scripted_platform False"
  let ?s0 = "start [answer [5], answer [0]]"
  let ?s1 = "\<lparr>kernel = [answer [0]],
              trace = [Ioctl \<lparr>tag = ALLOCATE_MEMORY, content = [64, 4096, 0]\<rparr>],
              heap = Map.empty, next_ptr = 1 :: nat\<rparr>"
  let ?s2 = "\<lparr>kernel = [] :: ioctl_result list,
              trace = [Ioctl \<lparr>tag = ALLOCATE_MEMORY, content = [64, 4096, 0]\<rparr>,
                       Ioctl \<lparr>tag = LOCK_MEMORY, content = [5]\<rparr>],
              heap = Map.empty, next_ptr = 1 :: nat\<rparr>"
  have a: "memAlloc ?P 64 (max (PAGE_ALIGNMENT ?P) 16) 0 ?s0 = (Inr 5, ?s1)"
    by (simp add: memAlloc_def mailboxCall_def scripted_platform_def start_def answer_def
        MailboxMessage_init_def write_back_def getContent_def Let_def)
  have b: "memLock ?P 5 ?s1 = (Inr 0, ?s2)"
    by (simp add: memLock_def mailboxCall_def scripted_platform_def answer_def
        QueryMessage_def MailboxMessage_init_def write_back_def getContent_def Let_def)
  have c: "(5 :: u32) \<noteq> 0"
    by simp
  have m: "fst (mapmem ?P (kernel ?s2) (busAddressToPhysicalAddress ?P 0) 64) = 0"
    by (simp add: scripted_platform_def)
  have n: "next_ptr ?s0 = 1" "trace ?s0 = []"
    by (simp_all add: start_def)
  note t = allocateBuffer_null_iff_zero_handle
    [where P = ?P and sz = 64 and al = 16 and fl = 0 and s = ?s0 and h = 5 and s' = ?s1
       and q = 0 and s'' = ?s2, THEN conjunct2, rule_format, OF conjI [OF a conjI [OF c b]],
     unfolded m n]
  from t have "fst (allocateBuffer ?P 64 16 0 ?s0) = Inr (Some 1)"
    by (rule conjunct1)
  moreover from t
  have "heap (snd (allocateBuffer ?P 64 16 0 ?s0)) 1 =
       Some \<lparr>memHandle = 5, qpuPointer = 0, hostPointer = 0, size_bytes = 64\<rparr>"
    by simp
  moreover from t
  have "requests_with_tag RELEASE_MEMORY (trace (snd (allocateBuffer ?P 64 16 0 ?s0))) = []"
    by simp
  moreover note a c b
  ultimately show ?thesis by simp
qed

subsection \<open>Allocating and releasing\<close>

lemma deallocateBuffer_eq:
  "heap s p = Some b \<Longrightarrow>
   deallocateBuffer P p s =
     (let su = (if hostPointer b \<noteq> 0
                then unmapmem_call P (hostPointer b) (size_bytes b) s else s);
          u = QueryMessage UNLOCK_MEMORY (memHandle b);
          f = QueryMessage RELEASE_MEMORY (memHandle b);
          sf = after_call P su u
      in if memHandle b = 0 then (Inr True, su)
         else if ret_val (ioctl_outcome P su u) < 0
         then (Inl (system_error (thrown_errno P su u)), sf)
         else if getContent (answered P su u) 0 \<noteq> 0 then (Inr False, sf)
         else if ret_val (ioctl_outcome P sf f) < 0
         then (Inl (system_error (thrown_errno P sf f)), after_call P sf f)
         else (Inr (getContent (answered P sf f) 0 = 0), after_call P sf f))"
  by (simp add: deallocateBuffer_def memUnlock_eq memFree_eq Let_def)

lemma unmapmem_call_sel [simp]:
  "trace (unmapmem_call P a n s) = trace s @ [Unmapmem a n]"
  "heap (unmapmem_call P a n s) = heap s"
  by (simp_all add: unmapmem_call_def)

lemma deallocateBuffer_heap:
  "heap (snd (deallocateBuffer P p s)) = heap s"
  by (cases "heap s p") (simp_all add: deallocateBuffer_eq Let_def, simp add: deallocateBuffer_def)

lemma deallocateBuffer_unlock_sent:
  "heap s p = Some b \<Longrightarrow> memHandle b \<noteq> 0 \<Longrightarrow>
     requests_with_tag UNLOCK_MEMORY
       (drop (length (trace s)) (trace (snd (deallocateBuffer P p s)))) =
     [QueryMessage UNLOCK_MEMORY (memHandle b)]"
  by (simp add: deallocateBuffer_eq Let_def)

lemma deallocateBuffer_trace:
  "heap s p = Some b \<Longrightarrow> memHandle b \<noteq> 0 \<Longrightarrow>
     trace (snd (deallocateBuffer P p s)) =
       trace s
       @ (if hostPointer b \<noteq> 0 then [Unmapmem (hostPointer b) (size_bytes b)] else [])
       @ [Ioctl (QueryMessage UNLOCK_MEMORY (memHandle b))]
       @ (if 0 \<le> ret_val (ioctl_outcome P
                   (if hostPointer b \<noteq> 0
                    then unmapmem_call P (hostPointer b) (size_bytes b) s else s)
                   (QueryMessage UNLOCK_MEMORY (memHandle b)))
             \<and> getContent (answered P
                   (if hostPointer b \<noteq> 0
                    then unmapmem_call P (hostPointer b) (size_bytes b) s else s)
                   (QueryMessage UNLOCK_MEMORY (memHandle b))) 0 = 0
          then [Ioctl (QueryMessage RELEASE_MEMORY (memHandle b))] else [])"
  by (simp add: deallocateBuffer_eq Let_def)

lemma deallocateBuffer_result:
  "heap s p = Some b \<Longrightarrow> memHandle b \<noteq> 0 \<Longrightarrow>
     fst (deallocateBuffer P p s) =
       (let su = (if hostPointer b \<noteq> 0
                  then unmapmem_call P (hostPointer b) (size_bytes b) s else s);
            u = QueryMessage UNLOCK_MEMORY (memHandle b);
            f = QueryMessage RELEASE_MEMORY (memHandle b);
            sf = after_call P su u
        in if ret_val (ioctl_outcome P su u) < 0
           then Inl (system_error (thrown_errno P su u))
           else if getContent (answered P su u) 0 \<noteq> 0 then Inr False
           else if ret_val (ioctl_outcome P sf f) < 0
           then Inl (system_error (thrown_errno P sf f))
           else Inr (getContent (answered P sf f) 0 = 0))"
  by (simp add: deallocateBuffer_eq Let_def)

lemma deallocateBuffer_no_call_iff:
  "heap s p = Some b \<Longrightarrow>
     (trace (snd (deallocateBuffer P p s)) = trace s) = (memHandle b = 0 \<and> hostPointer b = 0)"
  by (simp add: deallocateBuffer_eq Let_def)

lemma deallocateBuffer_nothing_to_release:
  "heap s p = Some b \<Longrightarrow> memHandle b = 0 \<Longrightarrow> hostPointer b = 0 \<Longrightarrow>
     deallocateBuffer P p s = (Inr True, s)"
  by (simp add: deallocateBuffer_def)

lemma allocateBuffer_Some:
  "allocateBuffer P sz al fl s = (Inr (Some p), s') \<Longrightarrow>
     \<exists>b. heap s' p = Some b \<and> memHandle b \<noteq> 0 \<and> size_bytes b = sz"
  by (auto simp add: allocateBuffer_eq Let_def split: if_splits)

text \<open>The destructor does nothing for a buffer whose handle is zero.\<close>

lemma DeviceBuffer_destructor_zero_handle:
  "heap s p = Some b \<Longrightarrow> memHandle b = 0 \<Longrightarrow> DeviceBuffer_destructor P p s = (Inr (), s)"
  by (simp add: DeviceBuffer_destructor_def)

text \<open>The round trip on the scripted kernel, step by step.\<close>

lemma roundtrip_allocated_eq:
  "roundtrip_allocated =
     (Inr (Some 1),
      \<lparr>kernel = [answer [0], answer [0], answer [1]],
       trace = [Ioctl \<lparr>tag = ALLOCATE_MEMORY, content = [64, 4096, 0]\<rparr>,
                Ioctl \<lparr>tag = LOCK_MEMORY, content = [5]\<rparr>,
                Mapmem 0x2000 64],
       heap = [1 \<mapsto> \<lparr>memHandle = 5, qpuPointer = 0xC0002000, hostPointer = 12288,
                       size_bytes = 64\<rparr>],
       next_ptr = 2\<rparr>)"
  by (simp add: roundtrip_allocated_def roundtrip_script_def allocateBuffer_def memAlloc_def
      memLock_def mailboxCall_def mapmem_call_def new_DeviceBuffer_def scripted_platform_def
      start_def answer_def QueryMessage_def MailboxMessage_init_def write_back_def
      getContent_def Let_def)

lemma roundtrip_released_eq:
  "roundtrip_released =
     (Inr True,
      \<lparr>kernel = [answer [1]],
       trace = [Ioctl \<lparr>tag = ALLOCATE_MEMORY, content = [64, 4096, 0]\<rparr>,
                Ioctl \<lparr>tag = LOCK_MEMORY, content = [5]\<rparr>,
                Mapmem 0x2000 64,
                Unmapmem 12288 64,
                Ioctl \<lparr>tag = UNLOCK_MEMORY, content = [5]\<rparr>,
                Ioctl \<lparr>tag = RELEASE_MEMORY, content = [5]\<rparr>],
       heap = [1 \<mapsto> \<lparr>memHandle = 5, qpuPointer = 0xC0002000, hostPointer = 12288,
                       size_bytes = 64\<rparr>],
       next_ptr = 2\<rparr>)"
  by (simp add: roundtrip_released_def roundtrip_allocated_eq deallocateBuffer_def memUnlock_def
      memFree_def mailboxCall_def unmapmem_call_def scripted_platform_def
      answer_def QueryMessage_def MailboxMessage_init_def write_back_def
      getContent_def Let_def)

lemma roundtrip_released_twice_eq:
  "roundtrip_released_twice =
     (Inr False,
      \<lparr>kernel = [],
       trace = [Ioctl \<lparr>tag = ALLOCATE_MEMORY, content = [64, 4096, 0]\<rparr>,
                Ioctl \<lparr>tag = LOCK_MEMORY, content = [5]\<rparr>,
                Mapmem 0x2000 64,
                Unmapmem 12288 64,
                Ioctl \<lparr>tag = UNLOCK_MEMORY, content = [5]\<rparr>,
                Ioctl \<lparr>tag = RELEASE_MEMORY, content = [5]\<rparr>,
                Unmapmem 12288 64,
                Ioctl \<lparr>tag = UNLOCK_MEMORY, content = [5]\<rparr>],
       heap = [1 \<mapsto> \<lparr>memHandle = 5, qpuPointer = 0xC0002000, hostPointer = 12288,
                       size_bytes = 64\<rparr>],
       next_ptr = 2\<rparr>)"
  by (simp add: roundtrip_released_twice_def roundtrip_released_eq deallocateBuffer_def
      memUnlock_def memFree_def mailboxCall_def unmapmem_call_def scripted_platform_def
      answer_def QueryMessage_def MailboxMessage_init_def write_back_def
      getContent_def Let_def)

text \<open>
  C3, as stated: after allocating and releasing, the handle and the host pointer of the
  buffer are zero, and a second release is a no-op. It fails at this run: the release
  succeeds and the buffer still holds handle 5 and host pointer 12288; the second release
  unmaps again and sends the unlock request again, and returns false on the firmware's
  answer.
\<close>

theorem roundtrip_not_zeroed_counterexample:
  "fst roundtrip_allocated = Inr (Some 1)
   \<and> fst roundtrip_released = Inr True
   \<and> heap (snd roundtrip_released) 1 =
       Some \<lparr>memHandle = 5, qpuPointer = 0xC0002000, hostPointer = 12288, size_bytes = 64\<rparr>
   \<and> fst roundtrip_released_twice = Inr False
   \<and> trace (snd roundtrip_released_twice) =
       trace (snd roundtrip_released)
       @ [Unmapmem 12288 64, Ioctl \<lparr>tag = UNLOCK_MEMORY, content = [5]\<rparr>]"
  by (simp add: roundtrip_allocated_eq roundtrip_released_eq roundtrip_released_twice_eq)

text \<open>
  C3, amended: releasing a buffer that \<^const>\<open>allocateBuffer\<close> returned leaves the buffer
  object as it was, with its nonzero handle and its host pointer. The release unmaps the
  host pointer if it is not null, sends the unlock request, and sends the release request
  exactly when the unlock call returned with content word 0. It throws exactly when the
  \<^verbatim>\<open>ioctl\<close> of one of these two requests fails, the \<^const>\<open>system_error\<close> of that
  call; otherwise it returns true exactly when both content words are 0. A second release
  of the same object sends the unlock request again. For any buffer, a release issues no
  call exactly when the handle is zero and the host pointer is null, and its result is
  then true and the world unchanged.
\<close>

theorem deallocateBuffer_after_allocateBuffer:
  "(allocateBuffer P sz al fl s = (Inr (Some p), s') \<and> deallocateBuffer P p s' = (r, s'') \<longrightarrow>
      (\<exists>b. heap s' p = Some b \<and> memHandle b \<noteq> 0 \<and> heap s'' = heap s'
         \<and> (let su = (if hostPointer b \<noteq> 0
                       then unmapmem_call P (hostPointer b) (size_bytes b) s' else s');
                 u = QueryMessage UNLOCK_MEMORY (memHandle b);
                 f = QueryMessage RELEASE_MEMORY (memHandle b);
                 sf = after_call P su u;
                 unlocked = (0 \<le> ret_val (ioctl_outcome P su u)
                             \<and> getContent (answered P su u) 0 = 0)
             in trace s'' =
                  trace s'
                  @ (if hostPointer b \<noteq> 0
                     then [Unmapmem (hostPointer b) (size_bytes b)] else [])
                  @ [Ioctl u]
                  @ (if unlocked then [Ioctl f] else [])
                \<and> r = (if ret_val (ioctl_outcome P su u) < 0
                        then Inl (system_error (thrown_errno P su u))
                        else if getContent (answered P su u) 0 \<noteq> 0 then Inr False
                        else if ret_val (ioctl_outcome P sf f) < 0
                        then Inl (system_error (thrown_errno P sf f))
                        else Inr (getContent (answered P sf f) 0 = 0)))
         \<and> requests_with_tag UNLOCK_MEMORY
               (drop (length (trace s'')) (trace (snd (deallocateBuffer P p s'')))) =
             [QueryMessage UNLOCK_MEMORY (memHandle b)]))
   \<and> (heap t q = Some c \<longrightarrow>
        (trace (snd (deallocateBuffer P q t)) = trace t) = (memHandle c = 0 \<and> hostPointer c = 0)
        \<and> (memHandle c = 0 \<and> hostPointer c = 0 \<longrightarrow>
             deallocateBuffer P q t = (Inr True, t)))"
proof (intro conjI impI)
  assume h: "allocateBuffer P sz al fl s = (Inr (Some p), s') \<and> deallocateBuffer P p s' = (r, s'')"
  from h obtain b where b: "heap s' p = Some b" "memHandle b \<noteq> 0"
    using allocateBuffer_Some by blast
  from h have r: "r = fst (deallocateBuffer P p s')" and s'': "s'' = snd (deallocateBuffer P p s')"
    by simp_all
  have same: "heap s'' = heap s'"
    by (simp add: s'' deallocateBuffer_heap)
  from b same have b': "heap s'' p = Some b"
    by simp
  have tr: "trace s'' =
       trace s'
       @ (if hostPointer b \<noteq> 0 then [Unmapmem (hostPointer b) (size_bytes b)] else [])
       @ [Ioctl (QueryMessage UNLOCK_MEMORY (memHandle b))]
       @ (if 0 \<le> ret_val (ioctl_outcome P
                   (if hostPointer b \<noteq> 0
                    then unmapmem_call P (hostPointer b) (size_bytes b) s' else s')
                   (QueryMessage UNLOCK_MEMORY (memHandle b)))
             \<and> getContent (answered P
                   (if hostPointer b \<noteq> 0
                    then unmapmem_call P (hostPointer b) (size_bytes b) s' else s')
                   (QueryMessage UNLOCK_MEMORY (memHandle b))) 0 = 0
          then [Ioctl (QueryMessage RELEASE_MEMORY (memHandle b))] else [])"
    unfolding s'' by (rule deallocateBuffer_trace [OF b])
  have res: "r =
       (let su = (if hostPointer b \<noteq> 0
                  then unmapmem_call P (hostPointer b) (size_bytes b) s' else s');
            u = QueryMessage UNLOCK_MEMORY (memHandle b);
            f = QueryMessage RELEASE_MEMORY (memHandle b);
            sf = after_call P su u
        in if ret_val (ioctl_outcome P su u) < 0
           then Inl (system_error (thrown_errno P su u))
           else if getContent (answered P su u) 0 \<noteq> 0 then Inr False
           else if ret_val (ioctl_outcome P sf f) < 0
           then Inl (system_error (thrown_errno P sf f))
           else Inr (getContent (answered P sf f) 0 = 0))"
    unfolding r by (rule deallocateBuffer_result [OF b])
  have again: "requests_with_tag UNLOCK_MEMORY
               (drop (length (trace s'')) (trace (snd (deallocateBuffer P p s'')))) =
             [QueryMessage UNLOCK_MEMORY (memHandle b)]"
    by (rule deallocateBuffer_unlock_sent [OF b' b(2)])
  have body: "heap s' p = Some b \<and> memHandle b \<noteq> 0 \<and> heap s'' = heap s'
         \<and> (let su = (if hostPointer b \<noteq> 0
                       then unmapmem_call P (hostPointer b) (size_bytes b) s' else s');
                 u = QueryMessage UNLOCK_MEMORY (memHandle b);
                 f = QueryMessage RELEASE_MEMORY (memHandle b);
                 sf = after_call P su u;
                 unlocked = (0 \<le> ret_val (ioctl_outcome P su u)
                             \<and> getContent (answered P su u) 0 = 0)
             in trace s'' =
                  trace s'
                  @ (if hostPointer b \<noteq> 0
                     then [Unmapmem (hostPointer b) (size_bytes b)] else [])
                  @ [Ioctl u]
                  @ (if unlocked then [Ioctl f] else [])
                \<and> r = (if ret_val (ioctl_outcome P su u) < 0
                        then Inl (system_error (thrown_errno P su u))
                        else if getContent (answered P su u) 0 \<noteq> 0 then Inr False
                        else if ret_val (ioctl_outcome P sf f) < 0
                        then Inl (system_error (thrown_errno P sf f))
                        else Inr (getContent (answered P sf f) 0 = 0)))
         \<and> requests_with_tag UNLOCK_MEMORY
               (drop (length (trace s'')) (trace (snd (deallocateBuffer P p s'')))) =
             [QueryMessage UNLOCK_MEMORY (memHandle b)]"
    using b same again tr res unfolding Let_def by (intro conjI)
  then show "\<exists>b. heap s' p = Some b \<and> memHandle b \<noteq> 0 \<and> heap s'' = heap s'
         \<and> (let su = (if hostPointer b \<noteq> 0
                       then unmapmem_call P (hostPointer b) (size_bytes b) s' else s');
                 u = QueryMessage UNLOCK_MEMORY (memHandle b);
                 f = QueryMessage RELEASE_MEMORY (memHandle b);
                 sf = after_call P su u;
                 unlocked = (0 \<le> ret_val (ioctl_outcome P su u)
                             \<and> getContent (answered P su u) 0 = 0)
             in trace s'' =
                  trace s'
                  @ (if hostPointer b \<noteq> 0
                     then [Unmapmem (hostPointer b) (size_bytes b)] else [])
                  @ [Ioctl u]
                  @ (if unlocked then [Ioctl f] else [])
                \<and> r = (if ret_val (ioctl_outcome P su u) < 0
                        then Inl (system_error (thrown_errno P su u))
                        else if getContent (answered P su u) 0 \<noteq> 0 then Inr False
                        else if ret_val (ioctl_outcome P sf f) < 0
                        then Inl (system_error (thrown_errno P sf f))
                        else Inr (getContent (answered P sf f) 0 = 0)))
         \<and> requests_with_tag UNLOCK_MEMORY
               (drop (length (trace s'')) (trace (snd (deallocateBuffer P p s'')))) =
             [QueryMessage UNLOCK_MEMORY (memHandle b)]"
    by (rule exI)
next
  assume c: "heap t q = Some c"
  show "(trace (snd (deallocateBuffer P q t)) = trace t) = (memHandle c = 0 \<and> hostPointer c = 0)"
    by (rule deallocateBuffer_no_call_iff [OF c])
next
  assume c: "heap t q = Some c" and z: "memHandle c = 0 \<and> hostPointer c = 0"
  then show "deallocateBuffer P q t = (Inr True, t)"
    by (simp add: deallocateBuffer_nothing_to_release)
qed

theorem deallocateBuffer_after_allocateBuffer_witness:
  "allocateBuffer (scripted_platform False) 64 16 0 (start roundtrip_script) =
     (Inr (Some 1), snd roundtrip_allocated)
   \<and> deallocateBuffer (scripted_platform False) 1 (snd roundtrip_allocated) =
       (Inr True, snd roundtrip_released)
   \<and> heap (snd roundtrip_released) = heap (snd roundtrip_allocated)
   \<and> heap nothing_to_release 1 =
       Some \<lparr>memHandle = 0, qpuPointer = 0, hostPointer = 0, size_bytes = 64\<rparr>
   \<and> trace (snd (deallocateBuffer (scripted_platform False) 1 nothing_to_release)) =
       trace nothing_to_release
   \<and> deallocateBuffer (scripted_platform False) 1 nothing_to_release = (Inr True, nothing_to_release)"
proof -
  have a: "allocateBuffer (scripted_platform False) 64 16 0 (start roundtrip_script) =
     (Inr (Some 1), snd roundtrip_allocated)"
    using roundtrip_allocated_eq by (simp add: roundtrip_allocated_def)
  have b: "deallocateBuffer (scripted_platform False) 1 (snd roundtrip_allocated) =
       (Inr True, snd roundtrip_released)"
    using roundtrip_released_eq by (simp add: roundtrip_released_def)
  have c: "heap nothing_to_release 1 =
       Some \<lparr>memHandle = 0, qpuPointer = 0, hostPointer = 0, size_bytes = 64\<rparr>"
    by (simp add: nothing_to_release_def)
  from deallocateBuffer_after_allocateBuffer [THEN conjunct1, rule_format, OF conjI [OF a b]]
  have t1: "heap (snd roundtrip_released) = heap (snd roundtrip_allocated)"
    by blast
  note t = deallocateBuffer_after_allocateBuffer
      [where t = nothing_to_release and q = 1 and P = "scripted_platform False"
         and c = "\<lparr>memHandle = 0, qpuPointer = 0, hostPointer = 0, size_bytes = 64\<rparr>",
       THEN conjunct2, rule_format, OF c]
  from t have t2: "trace (snd (deallocateBuffer (scripted_platform False) 1 nothing_to_release)) =
       trace nothing_to_release"
    by simp
  from t have t3: "deallocateBuffer (scripted_platform False) 1 nothing_to_release =
       (Inr True, nothing_to_release)"
    by simp
  from a b t1 c t2 t3 show ?thesis by (intro conjI)
qed

subsection \<open>getTotalGPUMemory\<close>

text \<open>
  C7. When the query returns, \<^const>\<open>getTotalGPUMemory\<close> returns half of slot 1 of the
  answer (unsigned division by two) if the query reported success, and 0 if it reported
  failure.
\<close>

theorem getTotalGPUMemory_half:
  "readMailboxMessage (SimpleQueryMessage VC_MEMORY) s = (Inr (ok, msg'), s') \<Longrightarrow>
     fst (getTotalGPUMemory readMailboxMessage s) =
       Inr (if ok then getContent msg' 1 div 2 else 0)
     \<and> unat (getContent msg' 1 div 2) = unat (getContent msg' 1) div 2"
  by (simp add: getTotalGPUMemory_def unat_div)

theorem getTotalGPUMemory_half_witness:
  "fixed_reader True [0x3C000000, 0x4000000] (SimpleQueryMessage VC_MEMORY) 0 =
     (Inr (True, \<lparr>tag = VC_MEMORY, content = [0x3C000000, 0x4000000]\<rparr>), 1)
   \<and> fst (getTotalGPUMemory (fixed_reader True [0x3C000000, 0x4000000]) 0) = Inr 0x2000000"
proof -
  have h: "fixed_reader True [0x3C000000, 0x4000000] (SimpleQueryMessage VC_MEMORY) 0 =
     (Inr (True, \<lparr>tag = VC_MEMORY, content = [0x3C000000, 0x4000000]\<rparr>), 1)"
    by (simp add: fixed_reader_def SimpleQueryMessage_def MailboxMessage_init_def write_back_def)
  show ?thesis
    using h getTotalGPUMemory_half
      [of "fixed_reader True [0x3C000000, 0x4000000]" 0 True
          "\<lparr>tag = VC_MEMORY, content = [0x3C000000, 0x4000000]\<rparr>" 1]
    by (simp add: getContent_def)
qed

subsection \<open>Event actions\<close>

text \<open>
  C8. \<^const>\<open>NoAction\<close> returns the status it was constructed with for every event and
  leaves the state alone; \<^const>\<open>CustomAction\<close> returns exactly what its function
  returns on the event.
\<close>

theorem event_actions_return:
  "call_operator (NoAction status) event s = (Inr status, s)
   \<and> call_operator (CustomAction (target func)) event s = func event s"
  by simp

subsection \<open>checkReturnValue\<close>

lemma checkReturnValue_iff: "checkReturnValue v = (v = 0x80000000)"
  unfolding checkReturnValue_def by auto

text \<open>
  C9. \<^const>\<open>checkReturnValue\<close> is true exactly for \<open>0x80000000\<close>: the high bit
  alone is not enough, and a value with the high bit clear fails.
\<close>

theorem checkReturnValue_exact:
  "checkReturnValue v = (v = 0x80000000)
   \<and> checkReturnValue v = (bit v 31 \<and> v = 0x80000000)
   \<and> \<not> checkReturnValue 0x80000001
   \<and> \<not> checkReturnValue 0x80000002
   \<and> \<not> checkReturnValue 0x7FFFFFFF
   \<and> \<not> checkReturnValue 0"
proof -
  have a: "checkReturnValue v = (v = 0x80000000)"
    by (rule checkReturnValue_iff)
  have b: "bit (0x80000000 :: u32) 31"
    by simp
  show ?thesis
    using b by (auto simp add: checkReturnValue_iff)
qed

subsection \<open>The test after mailboxCall\<close>

lemma mailboxCall_nonneg:
  "fst (mailboxCall P msg s) = Inr (ret, msg') \<Longrightarrow> 0 \<le> ret"
  by (auto simp add: mailboxCall_eq split: if_splits)

text \<open>
  C10. \<^const>\<open>mailboxCall\<close> throws on a negative \<^verbatim>\<open>ioctl\<close> return and otherwise
  returns that return value, which is not negative; so each of the seven requests is equal
  to itself with the branch for a negative return removed.
\<close>

theorem failure_branch_unreachable:
  "(fst (mailboxCall P msg s) = Inr (ret, msg') \<longrightarrow>
      \<not> ret < 0 \<and> ret = ret_val (ioctl_outcome P s msg))
   \<and> (ret_val (ioctl_outcome P s msg) < 0 \<longrightarrow>
      fst (mailboxCall P msg s) = Inl (system_error (thrown_errno P s msg)))
   \<and> memAlloc P sz al fl s =
       without_failure_branch P (MailboxMessage_init ALLOCATE_MEMORY 3 1 [sz, al, fl]) (\<lambda>w. w) s
   \<and> memLock P h s = without_failure_branch P (QueryMessage LOCK_MEMORY h) (\<lambda>w. w) s
   \<and> memUnlock P h s = without_failure_branch P (QueryMessage UNLOCK_MEMORY h) (\<lambda>w. w = 0) s
   \<and> memFree P h s = without_failure_branch P (QueryMessage RELEASE_MEMORY h) (\<lambda>w. w = 0) s
   \<and> executeCode P a r0 r1 r2 r3 r4 r5 s =
       without_failure_branch P (MailboxMessage_init EXECUTE_CODE 7 1 [a, r0, r1, r2, r3, r4, r5])
         (\<lambda>w. w = 0) s
   \<and> executeQPU P n ca flush t s =
       (if 0xFFFFFFFF < sint t \<and> DEBUG_MODE P then (Inr False, s)
        else without_failure_branch P
               (MailboxMessage_init EXECUTE_QPU 4 1 [n, snd ca, of_bool (\<not> flush), ucast t])
               (\<lambda>w. w = 0) s)
   \<and> enableQPU P enable s =
       without_failure_branch P (QueryMessage ENABLE_QPU (of_bool enable))
         (\<lambda>w. w = 0 \<or> w = 0x80000000) s"
proof -
  have 0: "fst (mailboxCall P msg s) = Inr (ret, msg') \<longrightarrow>
      \<not> ret < 0 \<and> ret = ret_val (ioctl_outcome P s msg)"
    by (auto simp add: mailboxCall_eq split: if_splits)
  have 1: "ret_val (ioctl_outcome P s msg) < 0 \<longrightarrow>
      fst (mailboxCall P msg s) = Inl (system_error (thrown_errno P s msg))"
    by (simp add: mailboxCall_eq)
  have 2: "memAlloc P sz al fl s =
       without_failure_branch P (MailboxMessage_init ALLOCATE_MEMORY 3 1 [sz, al, fl]) (\<lambda>w. w) s"
    by (simp add: memAlloc_eq without_failure_branch_def mailboxCall_eq Let_def)
  have 3: "memLock P h s = without_failure_branch P (QueryMessage LOCK_MEMORY h) (\<lambda>w. w) s"
    by (simp add: memLock_eq without_failure_branch_def mailboxCall_eq Let_def)
  have 4: "memUnlock P h s = without_failure_branch P (QueryMessage UNLOCK_MEMORY h) (\<lambda>w. w = 0) s"
    by (simp add: memUnlock_eq without_failure_branch_def mailboxCall_eq Let_def)
  have 5: "memFree P h s = without_failure_branch P (QueryMessage RELEASE_MEMORY h) (\<lambda>w. w = 0) s"
    by (simp add: memFree_eq without_failure_branch_def mailboxCall_eq Let_def)
  have 6: "executeCode P a r0 r1 r2 r3 r4 r5 s =
       without_failure_branch P (MailboxMessage_init EXECUTE_CODE 7 1 [a, r0, r1, r2, r3, r4, r5])
         (\<lambda>w. w = 0) s"
    by (simp add: executeCode_eq without_failure_branch_def mailboxCall_eq Let_def)
  have 7: "executeQPU P n ca flush t s =
       (if 0xFFFFFFFF < sint t \<and> DEBUG_MODE P then (Inr False, s)
        else without_failure_branch P
               (MailboxMessage_init EXECUTE_QPU 4 1 [n, snd ca, of_bool (\<not> flush), ucast t])
               (\<lambda>w. w = 0) s)"
    by (simp add: executeQPU_eq without_failure_branch_def mailboxCall_eq Let_def)
  have 8: "enableQPU P enable s =
       without_failure_branch P (QueryMessage ENABLE_QPU (of_bool enable))
         (\<lambda>w. w = 0 \<or> w = 0x80000000) s"
    by (simp add: enableQPU_eq without_failure_branch_def mailboxCall_eq Let_def)
  from 0 1 2 3 4 5 6 7 8 show ?thesis by (intro conjI)
qed

theorem failure_branch_unreachable_witness:
  "fst (mailboxCall (scripted_platform False) (QueryMessage LOCK_MEMORY 5) (start [answer [7]])) =
     Inr (0, \<lparr>tag = LOCK_MEMORY, content = [7]\<rparr>)
   \<and> \<not> (0 :: int) < 0
   \<and> ret_val (ioctl_outcome (scripted_platform False) (start []) (QueryMessage LOCK_MEMORY 5)) < 0
   \<and> fst (mailboxCall (scripted_platform False) (QueryMessage LOCK_MEMORY 5) (start [])) =
       Inl (system_error 5)
   \<and> memLock (scripted_platform False) 5 (start [answer [7]]) =
       (Inr 7, \<lparr>kernel = [], trace = [Ioctl \<lparr>tag = LOCK_MEMORY, content = [5]\<rparr>],
                heap = Map.empty, next_ptr = 1\<rparr>)"
proof -
  have a: "fst (mailboxCall (scripted_platform False) (QueryMessage LOCK_MEMORY 5) (start [answer [7]])) =
     Inr (0, \<lparr>tag = LOCK_MEMORY, content = [7]\<rparr>)"
    by (simp add: mailboxCall_def scripted_platform_def start_def answer_def QueryMessage_def
        MailboxMessage_init_def write_back_def)
  have b: "ret_val (ioctl_outcome (scripted_platform False) (start []) (QueryMessage LOCK_MEMORY 5)) < 0"
    by (simp add: ioctl_outcome_def scripted_platform_def start_def)
  have c: "thrown_errno (scripted_platform False) (start []) (QueryMessage LOCK_MEMORY 5) = 5"
    by (simp add: thrown_errno_def ioctl_outcome_def scripted_platform_def start_def)
  have d: "without_failure_branch (scripted_platform False) (QueryMessage LOCK_MEMORY 5) (\<lambda>w. w)
             (start [answer [7]]) =
       (Inr 7, \<lparr>kernel = [], trace = [Ioctl \<lparr>tag = LOCK_MEMORY, content = [5]\<rparr>],
                heap = Map.empty, next_ptr = 1\<rparr>)"
    by (simp add: without_failure_branch_def mailboxCall_def scripted_platform_def start_def
        answer_def QueryMessage_def MailboxMessage_init_def write_back_def getContent_def)
  have t1: "fst (mailboxCall (scripted_platform False) (QueryMessage LOCK_MEMORY 5) (start [answer [7]])) =
       Inr (0, \<lparr>tag = LOCK_MEMORY, content = [7]\<rparr>) \<longrightarrow>
     \<not> (0 :: int) < 0
     \<and> 0 = ret_val (ioctl_outcome (scripted_platform False) (start [answer [7]]) (QueryMessage LOCK_MEMORY 5))"
    by (rule failure_branch_unreachable [THEN conjunct1])
  have t2: "ret_val (ioctl_outcome (scripted_platform False) (start []) (QueryMessage LOCK_MEMORY 5)) < 0 \<longrightarrow>
     fst (mailboxCall (scripted_platform False) (QueryMessage LOCK_MEMORY 5) (start [])) =
       Inl (system_error (thrown_errno (scripted_platform False) (start []) (QueryMessage LOCK_MEMORY 5)))"
    by (rule failure_branch_unreachable [THEN conjunct2, THEN conjunct1])
  have t3: "memLock (scripted_platform False) 5 (start [answer [7]]) =
     without_failure_branch (scripted_platform False) (QueryMessage LOCK_MEMORY 5) (\<lambda>w. w)
       (start [answer [7]])"
    by (rule failure_branch_unreachable [THEN conjunct2, THEN conjunct2, THEN conjunct2, THEN conjunct1])
  from t1 a have "\<not> (0 :: int) < 0" by simp
  moreover from t2 b c
  have "fst (mailboxCall (scripted_platform False) (QueryMessage LOCK_MEMORY 5) (start [])) =
       Inl (system_error 5)" by simp
  moreover note a b t3 [unfolded d]
  ultimately show ?thesis by (intro conjI)
qed

end
